theory Spec2Isabelle
  imports Complex_Main
begin

section \<open>Gated convolutions (gccaps/gated_conv.py)\<close>

text \<open>
  The module defines the layer class \<open>GatedConv\<close>, a subclass of the framework's
  \<open>Conv2D\<close>, and the function \<open>block\<close> that chains two gated convolutions with
  batch normalisation, dropout and a final max-pooling.

  Everything the module imports (\<open>Conv2D\<close>, \<open>BatchNormalization\<close>, \<open>Dropout\<close>,
  \<open>MaxPooling2D\<close>, the layer machinery) belongs to the framework and is not part of the
  module. The framework's primitives are therefore parameters of the definitions below,
  and a theorem that relies on a documented guarantee of a primitive states that guarantee
  as a hypothesis. Tensor entries are real numbers and \<open>sigmoid\<close> is the exact function:
  the rounding of the backend's floating-point arithmetic is not modelled, and the
  properties below are about which entries are combined and how, not about rounded values.
\<close>

subsection \<open>Data\<close>

datatype error = KeyError | ValueError | TypeError

text \<open>Values that appear as keyword arguments and in exported configurations.\<close>

datatype val =
    VInt int
  | VReal real
  | VStr string
  | VBool bool
  | VNone
  | VTuple "val list"
  | VDict "(string \<times> val) list"

type_synonym config = "string \<rightharpoonup> val"

text \<open>A rank-4 tensor, indexed batch, row, column, channel.\<close>

type_synonym tensor = "real list list list list"

text \<open>A static shape; \<open>None\<close> is a dimension the framework leaves open.\<close>

type_synonym shape = "int option list"

text \<open>
  The state of the superclass part of a layer: what \<open>GatedConv.__init__\<close> hands to
  \<open>Conv2D.__init__\<close>.
\<close>

record conv2d =
  filters :: int
  kernel_size :: val
  strides :: val
  padding :: string
  kwargs :: config

record gatedconv =
  base :: conv2d
  n_filters :: int

subsection \<open>Errors as values\<close>

definition bind_err :: "error + 'a \<Rightarrow> ('a \<Rightarrow> error + 'b) \<Rightarrow> error + 'b" where
  "bind_err r f = (case r of Inl e \<Rightarrow> Inl e | Inr v \<Rightarrow> f v)"

fun sequence_err :: "(error + 'a) list \<Rightarrow> error + 'a list" where
  "sequence_err [] = Inr []"
| "sequence_err (r # rs) =
     (case r of
        Inl e \<Rightarrow> Inl e
      | Inr v \<Rightarrow> (case sequence_err rs of Inl e \<Rightarrow> Inl e | Inr vs \<Rightarrow> Inr (v # vs)))"

subsection \<open>Construction\<close>

text \<open>
  \<open>__init__\<close> with every parameter bound. The superclass constructor is called with
  \<open>filters=n_filters*2\<close> next to \<open>**kwargs\<close>: a \<open>filters\<close> entry in \<open>kwargs\<close> is a
  second value for the same keyword, which Python rejects with a \<open>TypeError\<close>.
\<close>

definition GatedConv_init :: "int \<Rightarrow> val \<Rightarrow> val \<Rightarrow> string \<Rightarrow> config \<Rightarrow> error + gatedconv" where
  "GatedConv_init n k s p kw =
     (if kw ''filters'' \<noteq> None then Inl TypeError
      else Inr \<lparr> base = \<lparr> filters = n * 2, kernel_size = k, strides = s,
                          padding = p, kwargs = kw \<rparr>,
                 n_filters = n \<rparr>)"

text \<open>
  The constructor as it is called: an omitted argument (\<open>None\<close> here) takes the default
  of the signature \<open>n_filters=64, kernel_size=(3, 3), strides=(1, 1), padding='valid'\<close>.
\<close>

definition GatedConv ::
  "int option \<Rightarrow> val option \<Rightarrow> val option \<Rightarrow> string option \<Rightarrow> config \<Rightarrow> error + gatedconv" where
  "GatedConv n k s p kw =
     GatedConv_init
       (case n of None \<Rightarrow> 64 | Some v \<Rightarrow> v)
       (case k of None \<Rightarrow> VTuple [VInt 3, VInt 3] | Some v \<Rightarrow> v)
       (case s of None \<Rightarrow> VTuple [VInt 1, VInt 1] | Some v \<Rightarrow> v)
       (case p of None \<Rightarrow> ''valid'' | Some v \<Rightarrow> v)
       kw"

subsection \<open>Slicing, activations and the elementwise product\<close>

text \<open>Python's \<open>xs[:n]\<close> and \<open>xs[n:]\<close>; a negative bound counts from the end.\<close>

definition slice_to :: "int \<Rightarrow> 'a list \<Rightarrow> 'a list" where
  "slice_to n xs =
     (if 0 \<le> n then take (nat n) xs else take (nat (int (length xs) + n)) xs)"

definition slice_from :: "int \<Rightarrow> 'a list \<Rightarrow> 'a list" where
  "slice_from n xs =
     (if 0 \<le> n then drop (nat n) xs else drop (nat (int (length xs) + n)) xs)"

definition sigmoid :: "real \<Rightarrow> real" where
  "sigmoid x = 1 / (1 + exp (- x))"

text \<open>
  \<open>Activation(name)\<close> applied to a tensor. The module uses the names \<open>'linear'\<close> (the
  identity) and \<open>'sigmoid'\<close>; the framework rejects a name it does not know.
\<close>

definition Activation :: "string \<Rightarrow> tensor \<Rightarrow> error + tensor" where
  "Activation name t =
     (if name = ''linear'' then Inr t
      else if name = ''sigmoid'' then Inr (map (map (map (map sigmoid))) t)
      else Inl ValueError)"

text \<open>
  The merge layer \<open>Multiply\<close>: along each axis the two operands have the same extent, or
  one of them has extent 1 and is repeated; any other pair of extents is a
  \<open>ValueError\<close>. Fewer than two operands are a \<open>ValueError\<close> as well.
\<close>

definition broadcast2 ::
  "('a \<Rightarrow> 'b \<Rightarrow> error + 'c) \<Rightarrow> 'a list \<Rightarrow> 'b list \<Rightarrow> error + 'c list" where
  "broadcast2 f xs ys =
     (if length xs = length ys then sequence_err (map2 f xs ys)
      else if length xs = 1 then sequence_err (map (f (hd xs)) ys)
      else if length ys = 1 then sequence_err (map (\<lambda>x. f x (hd ys)) xs)
      else Inl ValueError)"

definition multiply2 :: "tensor \<Rightarrow> tensor \<Rightarrow> error + tensor" where
  "multiply2 =
     broadcast2 (broadcast2 (broadcast2 (broadcast2 (\<lambda>a b. Inr (a * b)))))"

fun Multiply :: "tensor list \<Rightarrow> error + tensor" where
  "Multiply (a # b # rest) =
     foldl (\<lambda>acc t. bind_err acc (\<lambda>out. multiply2 out t)) (Inr a) (b # rest)"
| "Multiply _ = Inl ValueError"

subsection \<open>The layer's methods\<close>

text \<open>
  \<open>call\<close>. The first argument is \<open>super().call\<close>: the framework's convolution of this
  layer instance, given the state of the superclass part.
\<close>

definition call ::
  "(conv2d \<Rightarrow> tensor \<Rightarrow> error + tensor) \<Rightarrow> gatedconv \<Rightarrow> tensor \<Rightarrow> error + tensor" where
  "call super_call self inputs =
     bind_err (super_call (base self) inputs) (\<lambda>output.
       let n = n_filters self in
       bind_err (Activation ''linear'' (map (map (map (slice_to n))) output)) (\<lambda>linear.
       bind_err (Activation ''sigmoid'' (map (map (map (slice_from n))) output)) (\<lambda>sigmoid_half.
       Multiply [linear, sigmoid_half])))"

text \<open>Every channel vector of the tensor has \<open>c\<close> entries.\<close>

definition has_channels :: "nat \<Rightarrow> 'a list list list list \<Rightarrow> bool" where
  "has_channels c t = list_all (list_all (list_all (\<lambda>v. length v = c))) t"

text \<open>
  The guarantee of the convolution primitive that the layer relies on: the result has as
  many channels as the primitive was configured with filters.
\<close>

definition conv_yields_filters :: "(conv2d \<Rightarrow> tensor \<Rightarrow> error + tensor) \<Rightarrow> bool" where
  "conv_yields_filters super_call =
     (\<forall>c x out. super_call c x = Inr out \<longrightarrow> has_channels (nat (filters c)) out)"


text \<open>
  \<open>compute_output_shape\<close>. The first argument is the superclass method.
\<close>

definition compute_output_shape ::
  "(conv2d \<Rightarrow> shape \<Rightarrow> error + shape) \<Rightarrow> gatedconv \<Rightarrow> shape \<Rightarrow> error + shape" where
  "compute_output_shape super_shape self input_shape =
     bind_err (super_shape (base self) input_shape) (\<lambda>output_shape.
       Inr (slice_to 3 output_shape @ [Some (n_filters self)]))"

text \<open>
  \<open>get_config\<close>. The first argument is the superclass method; \<open>del config['filters']\<close>
  raises \<open>KeyError\<close> when the key is missing.
\<close>

definition get_config :: "(conv2d \<Rightarrow> config) \<Rightarrow> gatedconv \<Rightarrow> error + config" where
  "get_config super_get_config self =
     (let config = super_get_config (base self);
          config = config(''n_filters'' \<mapsto> VInt (n_filters self))
      in if config ''filters'' = None then Inl KeyError
         else Inr (config(''filters'' := None)))"

text \<open>
  Rebuilding a layer from a configuration is the keyword call \<open>GatedConv(**config)\<close>:
  the four named parameters are taken from the entries of their names, every other entry
  goes to \<open>**kwargs\<close>. The parameters \<open>n_filters\<close> and \<open>padding\<close> are an integer and a
  string here, so an entry of another kind has no place in the model and is reported as a
  \<open>TypeError\<close>.
\<close>

definition int_arg :: "config \<Rightarrow> string \<Rightarrow> error + int option" where
  "int_arg config key =
     (case config key of
        None \<Rightarrow> Inr None
      | Some (VInt i) \<Rightarrow> Inr (Some i)
      | Some _ \<Rightarrow> Inl TypeError)"

definition str_arg :: "config \<Rightarrow> string \<Rightarrow> error + string option" where
  "str_arg config key =
     (case config key of
        None \<Rightarrow> Inr None
      | Some (VStr s) \<Rightarrow> Inr (Some s)
      | Some _ \<Rightarrow> Inl TypeError)"

definition from_config :: "config \<Rightarrow> error + gatedconv" where
  "from_config config =
     bind_err (int_arg config ''n_filters'') (\<lambda>n.
     bind_err (str_arg config ''padding'') (\<lambda>p.
       GatedConv n (config ''kernel_size'') (config ''strides'') p
         (config(''n_filters'' := None, ''kernel_size'' := None,
                 ''strides'' := None, ''padding'' := None))))"

subsection \<open>The framework's primitives\<close>

text \<open>
  The primitives the module calls. A layer instance owns its weights, so the primitives
  that compute with weights or random masks take the number of the instance (the order of
  creation inside \<open>block\<close>). The arguments of the normalisation, the dropout and the
  pooling are the ones the module passes: \<open>axis\<close>, \<open>rate\<close> and \<open>pool_size\<close>.
\<close>

record framework =
  conv2d_call :: "nat \<Rightarrow> conv2d \<Rightarrow> tensor \<Rightarrow> error + tensor"
  conv2d_shape :: "conv2d \<Rightarrow> shape \<Rightarrow> error + shape"
  conv2d_config :: "conv2d \<Rightarrow> config"
  batchnorm_call :: "nat \<Rightarrow> int \<Rightarrow> tensor \<Rightarrow> error + tensor"
  batchnorm_shape :: "int \<Rightarrow> shape \<Rightarrow> error + shape"
  dropout_call :: "nat \<Rightarrow> real \<Rightarrow> tensor \<Rightarrow> error + tensor"
  dropout_shape :: "real \<Rightarrow> shape \<Rightarrow> error + shape"
  maxpool_call :: "val \<Rightarrow> tensor \<Rightarrow> error + tensor"
  maxpool_shape :: "val \<Rightarrow> shape \<Rightarrow> error + shape"

text \<open>The layer objects \<open>block\<close> creates, with the arguments it gives them.\<close>

datatype layer =
    GatedConvLayer gatedconv
  | BatchNormalization int
  | Dropout real
  | MaxPooling2D val

text \<open>
  Applying a layer object to its input. The framework's \<open>__call__\<close> runs the layer's
  \<open>call\<close> on the value and its \<open>compute_output_shape\<close> on the static shape; for a
  \<open>GatedConv\<close> these are the two methods above.
\<close>

fun apply_value :: "framework \<Rightarrow> nat \<Rightarrow> layer \<Rightarrow> tensor \<Rightarrow> error + tensor" where
  "apply_value fw i (GatedConvLayer g) x = call (conv2d_call fw i) g x"
| "apply_value fw i (BatchNormalization axis) x = batchnorm_call fw i axis x"
| "apply_value fw i (Dropout rate) x = dropout_call fw i rate x"
| "apply_value fw i (MaxPooling2D pool_size) x = maxpool_call fw pool_size x"

fun apply_shape :: "framework \<Rightarrow> nat \<Rightarrow> layer \<Rightarrow> shape \<Rightarrow> error + shape" where
  "apply_shape fw i (GatedConvLayer g) s = compute_output_shape (conv2d_shape fw) g s"
| "apply_shape fw i (BatchNormalization axis) s = batchnorm_shape fw axis s"
| "apply_shape fw i (Dropout rate) s = dropout_shape fw rate s"
| "apply_shape fw i (MaxPooling2D pool_size) s = maxpool_shape fw pool_size s"

subsection \<open>The block\<close>

text \<open>
  \<open>block\<close> with every parameter bound. The first argument applies the \<open>i\<close>-th layer
  object to the current \<open>x\<close>; an error of any step ends the block with that error.
\<close>

definition block ::
  "(nat \<Rightarrow> layer \<Rightarrow> 'x \<Rightarrow> error + 'x) \<Rightarrow> 'x \<Rightarrow> int \<Rightarrow> val \<Rightarrow> real \<Rightarrow> error + 'x" where
  "block apply_layer x n pool_size dropout_rate =
     bind_err (GatedConv (Some n) None None (Some ''same'') Map.empty) (\<lambda>g.
     bind_err (apply_layer 0 (GatedConvLayer g) x) (\<lambda>x.
     bind_err (apply_layer 1 (BatchNormalization (- 1)) x) (\<lambda>x.
     bind_err (apply_layer 2 (Dropout dropout_rate) x) (\<lambda>x.
     bind_err (GatedConv (Some n) None None (Some ''same'') Map.empty) (\<lambda>g.
     bind_err (apply_layer 3 (GatedConvLayer g) x) (\<lambda>x.
     bind_err (apply_layer 4 (BatchNormalization (- 1)) x) (\<lambda>x.
     bind_err (apply_layer 5 (Dropout dropout_rate) x) (\<lambda>x.
       apply_layer 6 (MaxPooling2D pool_size) x))))))))"

text \<open>
  \<open>block\<close> as it is called: an omitted argument takes the default of the signature
  \<open>n_filters=64, pool_size=(2, 2), dropout_rate=0.2\<close>.
\<close>

definition block_call ::
  "(nat \<Rightarrow> layer \<Rightarrow> 'x \<Rightarrow> error + 'x) \<Rightarrow> 'x \<Rightarrow> int option \<Rightarrow> val option \<Rightarrow> real option
     \<Rightarrow> error + 'x" where
  "block_call apply_layer x n pool_size dropout_rate =
     block apply_layer x
       (case n of None \<Rightarrow> 64 | Some v \<Rightarrow> v)
       (case pool_size of None \<Rightarrow> VTuple [VInt 2, VInt 2] | Some v \<Rightarrow> v)
       (case dropout_rate of None \<Rightarrow> 2 / 10 | Some v \<Rightarrow> v)"


subsection \<open>A layer over its lifetime\<close>

text \<open>
  The methods a caller can invoke on a constructed layer, and the layer after the
  invocation. No method body assigns to an attribute, so the layer that comes back is the
  layer that went in.
\<close>

datatype invocation =
    Call tensor
  | ComputeOutputShape shape
  | GetConfig

datatype outcome =
    CallResult "error + tensor"
  | ShapeResult "error + shape"
  | ConfigResult "error + config"

fun invoke :: "framework \<Rightarrow> nat \<Rightarrow> gatedconv \<Rightarrow> invocation \<Rightarrow> outcome \<times> gatedconv" where
  "invoke fw i self (Call inputs) = (CallResult (call (conv2d_call fw i) self inputs), self)"
| "invoke fw i self (ComputeOutputShape s) =
     (ShapeResult (compute_output_shape (conv2d_shape fw) self s), self)"
| "invoke fw i self GetConfig = (ConfigResult (get_config (conv2d_config fw) self), self)"

fun lifetime :: "framework \<Rightarrow> nat \<Rightarrow> gatedconv \<Rightarrow> invocation list \<Rightarrow> gatedconv" where
  "lifetime fw i self [] = self"
| "lifetime fw i self (m # ms) = lifetime fw i (snd (invoke fw i self m)) ms"

subsection \<open>Guarantees of the primitives\<close>

text \<open>
  The documented behaviour of the framework that the properties of the module depend on,
  each as a predicate on the primitive concerned.
\<close>

text \<open>
  A size argument (\<open>kernel_size\<close>, \<open>strides\<close>, \<open>pool_size\<close>) is an integer, standing
  for the same extent in both directions, or a pair of integers.
\<close>

fun as_pair :: "val \<Rightarrow> (int \<times> int) option" where
  "as_pair (VInt k) = Some (k, k)"
| "as_pair (VTuple [VInt a, VInt b]) = Some (a, b)"
| "as_pair _ = None"

text \<open>
  With \<open>'same'\<close> padding, unit strides, a well-formed kernel size and no further option,
  the convolution keeps the batch and the two spatial extents of a channels-last shape and
  puts its filter count in the channel position.
\<close>

definition same_padding_keeps_size :: "(conv2d \<Rightarrow> shape \<Rightarrow> error + shape) \<Rightarrow> bool" where
  "same_padding_keeps_size super_shape =
     (\<forall>c b h w ch.
        padding c = ''same'' \<and> strides c = VTuple [VInt 1, VInt 1]
        \<and> as_pair (kernel_size c) \<noteq> None \<and> kwargs c = Map.empty
        \<longrightarrow> super_shape c [b, h, w, ch] = Inr [b, h, w, Some (filters c)])"

text \<open>Normalisation and dropout return a tensor of the shape they were given.\<close>

definition keeps_shape :: "('a \<Rightarrow> shape \<Rightarrow> error + shape) \<Rightarrow> bool" where
  "keeps_shape layer_shape = (\<forall>a s. layer_shape a s = Inr s)"


text \<open>
  The configuration the convolution exports lists its filter count, kernel size, strides
  and padding under the names of the constructor's parameters.
\<close>

definition exports_settings :: "(conv2d \<Rightarrow> config) \<Rightarrow> bool" where
  "exports_settings super_get_config =
     (\<forall>c. super_get_config c ''filters'' = Some (VInt (filters c))
        \<and> super_get_config c ''kernel_size'' = Some (kernel_size c)
        \<and> super_get_config c ''strides'' = Some (strides c)
        \<and> super_get_config c ''padding'' = Some (VStr (padding c)))"

subsection \<open>The block in the words of its description\<close>

text \<open>
  The description of the block: gated convolution, normalisation over the channel axis
  (the last one), dropout; the same three again; then one max-pooling.
\<close>

definition described_stages :: "gatedconv \<Rightarrow> val \<Rightarrow> real \<Rightarrow> layer list" where
  "described_stages g pool_size dropout_rate =
     concat (replicate 2 [GatedConvLayer g, BatchNormalization (- 1), Dropout dropout_rate])
       @ [MaxPooling2D pool_size]"

fun apply_in_order ::
  "(nat \<Rightarrow> layer \<Rightarrow> 'x \<Rightarrow> error + 'x) \<Rightarrow> nat \<Rightarrow> layer list \<Rightarrow> 'x \<Rightarrow> error + 'x" where
  "apply_in_order apply_layer i [] x = Inr x"
| "apply_in_order apply_layer i (l # ls) x =
     (case apply_layer i l x of
        Inl e \<Rightarrow> Inl e
      | Inr y \<Rightarrow> apply_in_order apply_layer (Suc i) ls y)"

subsection \<open>An instance of the primitives\<close>

text \<open>
  One concrete choice of the primitives, to evaluate the module on. The shape rules are
  the framework's output-length arithmetic. The values are those of one particular set of
  weights: a convolution that sums the input channels of a position into every output
  channel (a kernel with weight \<open>i + 1\<close> on its centre tap and 0 elsewhere, for stride 1
  and \<open>'same'\<close> padding), a normalisation in inference mode with scale 2 and offset 1, a
  dropout in training mode whose mask drops every unit, and a max-pooling whose stride is
  its window.
\<close>

definition conv_output_length :: "int option \<Rightarrow> int \<Rightarrow> string \<Rightarrow> int \<Rightarrow> int option" where
  "conv_output_length input_length filter_size pad stride =
     (case input_length of
        None \<Rightarrow> None
      | Some l \<Rightarrow>
          let output_length = (if pad = ''same'' then l else l - filter_size + 1)
          in Some ((output_length + stride - 1) div stride))"

definition ref_conv2d_shape :: "conv2d \<Rightarrow> shape \<Rightarrow> error + shape" where
  "ref_conv2d_shape c s =
     (case (as_pair (kernel_size c), as_pair (strides c), s) of
        (Some (kh, kw), Some (sh, sw), [d0, d1, d2, d3]) \<Rightarrow>
          if padding c \<noteq> ''same'' \<and> padding c \<noteq> ''valid'' then Inl ValueError
          else if kwargs c ''data_format'' = Some (VStr ''channels_first'')
          then Inr [d0, Some (filters c),
                    conv_output_length d2 kh (padding c) sh,
                    conv_output_length d3 kw (padding c) sw]
          else Inr [d0,
                    conv_output_length d1 kh (padding c) sh,
                    conv_output_length d2 kw (padding c) sw,
                    Some (filters c)]
      | _ \<Rightarrow> Inl ValueError)"

definition ref_maxpool_shape :: "val \<Rightarrow> shape \<Rightarrow> error + shape" where
  "ref_maxpool_shape pool_size s =
     (case (as_pair pool_size, s) of
        (Some (ph, pw), [b, h, w, ch]) \<Rightarrow>
          Inr [b, conv_output_length h ph ''valid'' ph,
                  conv_output_length w pw ''valid'' pw, ch]
      | _ \<Rightarrow> Inl ValueError)"

definition ref_conv2d_config :: "conv2d \<Rightarrow> config" where
  "ref_conv2d_config c =
     (kwargs c)(''filters'' \<mapsto> VInt (filters c), ''kernel_size'' \<mapsto> kernel_size c,
                ''strides'' \<mapsto> strides c, ''padding'' \<mapsto> VStr (padding c))"

definition ref_conv2d_call :: "nat \<Rightarrow> conv2d \<Rightarrow> tensor \<Rightarrow> error + tensor" where
  "ref_conv2d_call i c x =
     Inr (map (map (map (\<lambda>v. replicate (nat (filters c)) (real (i + 1) * sum_list v)))) x)"

definition ref_batchnorm_call :: "nat \<Rightarrow> int \<Rightarrow> tensor \<Rightarrow> error + tensor" where
  "ref_batchnorm_call i axis x = Inr (map (map (map (map (\<lambda>a. 2 * a + 1)))) x)"

definition ref_dropout_call :: "nat \<Rightarrow> real \<Rightarrow> tensor \<Rightarrow> error + tensor" where
  "ref_dropout_call i rate x =
     Inr (if 0 < rate \<and> rate < 1 then map (map (map (map (\<lambda>a. 0)))) x else x)"

function chunks :: "nat \<Rightarrow> 'a list \<Rightarrow> 'a list list" where
  "chunks k xs = (if k = 0 \<or> length xs < k then [] else take k xs # chunks k (drop k xs))"
  by pat_completeness auto
termination
  by (relation "measure (\<lambda>(k, xs). length xs)") auto

declare chunks.simps [simp del]

definition window_max :: "real list list \<Rightarrow> real list" where
  "window_max vs = (case vs of [] \<Rightarrow> [] | v # rest \<Rightarrow> foldl (map2 max) v rest)"

definition pool2d :: "nat \<Rightarrow> nat \<Rightarrow> real list list list \<Rightarrow> real list list list" where
  "pool2d ph pw img =
     map (\<lambda>band. map (\<lambda>win. window_max (concat win)) (transpose (map (chunks pw) band)))
       (chunks ph img)"

definition ref_maxpool_call :: "val \<Rightarrow> tensor \<Rightarrow> error + tensor" where
  "ref_maxpool_call pool_size x =
     (case as_pair pool_size of
        Some (ph, pw) \<Rightarrow>
          if 0 < ph \<and> 0 < pw then Inr (map (pool2d (nat ph) (nat pw)) x) else Inl ValueError
      | None \<Rightarrow> Inl ValueError)"

definition ref_framework :: framework where
  "ref_framework =
     \<lparr> conv2d_call = ref_conv2d_call,
       conv2d_shape = ref_conv2d_shape,
       conv2d_config = ref_conv2d_config,
       batchnorm_call = ref_batchnorm_call,
       batchnorm_shape = (\<lambda>axis s. Inr s),
       dropout_call = ref_dropout_call,
       dropout_shape = (\<lambda>rate s. Inr s),
       maxpool_call = ref_maxpool_call,
       maxpool_shape = ref_maxpool_shape \<rparr>"

subsection \<open>Example layers\<close>

text \<open>
  \<open>GatedConv(1, padding='same')\<close>, and \<open>GatedConv(4, data_format='channels_first')\<close>.
\<close>

definition example_layer :: gatedconv where
  "example_layer =
     \<lparr> base = \<lparr> filters = 2, kernel_size = VTuple [VInt 3, VInt 3],
                 strides = VTuple [VInt 1, VInt 1], padding = ''same'',
                 kwargs = Map.empty \<rparr>,
        n_filters = 1 \<rparr>"

definition example_channels_first_layer :: gatedconv where
  "example_channels_first_layer =
     \<lparr> base = \<lparr> filters = 8, kernel_size = VTuple [VInt 3, VInt 3],
                 strides = VTuple [VInt 1, VInt 1], padding = ''valid'',
                 kwargs = [''data_format'' \<mapsto> VStr ''channels_first''] \<rparr>,
        n_filters = 4 \<rparr>"

section \<open>Properties\<close>

subsection \<open>Auxiliary facts\<close>

lemma sequence_err_map_Inr:
  "(\<And>x. x \<in> set xs \<Longrightarrow> f x = Inr (g x)) \<Longrightarrow> sequence_err (map f xs) = Inr (map g xs)"
  by (induction xs) auto

lemma broadcast2_same_source:
  "broadcast2 F (map f xs) (map g xs) = sequence_err (map (\<lambda>x. F (f x) (g x)) xs)"
  by (simp add: broadcast2_def zip_map_map zip_same_conv_map comp_def)

lemma broadcast2_pointwise:
  assumes "\<And>x. x \<in> set xs \<Longrightarrow> F (f x) (g x) = Inr (h x)"
  shows "broadcast2 F (map f xs) (map g xs) = Inr (map h xs)"
  unfolding broadcast2_same_source using assms by (rule sequence_err_map_Inr)

lemma broadcast2_product:
  "length xs = length ys \<Longrightarrow>
   broadcast2 (\<lambda>a b. Inr (a * b)) xs ys = Inr (map2 (*) xs (ys :: real list))"
  unfolding broadcast2_def
  by (simp add: sequence_err_map_Inr [where g = "\<lambda>(a, b). a * b"] split_def)

lemma length_halves:
  "length v = nat (2 * n) \<Longrightarrow> length (slice_to n v) = nat n \<and> length (slice_from n v) = nat n"
  by (auto simp: slice_to_def slice_from_def)

lemma multiply2_halves:
  assumes "has_channels (nat (2 * n)) out"
  shows "multiply2 (map (map (map (slice_to n))) out)
           (map (map (map (map sigmoid))) (map (map (map (slice_from n))) out))
         = Inr (map (map (map (\<lambda>v. map2 (*) (slice_to n v) (map sigmoid (slice_from n v))))) out)"
proof -
  have fuse: "map (map (map (map sigmoid))) (map (map (map (slice_from n))) out)
                = map (map (map (\<lambda>v. map sigmoid (slice_from n v)))) out"
    by (simp add: comp_def)
  have vec: "broadcast2 (\<lambda>a b. Inr (a * b)) (slice_to n v) (map sigmoid (slice_from n v))
               = Inr (map2 (*) (slice_to n v) (map sigmoid (slice_from n v)))"
    if "length v = nat (2 * n)" for v
    using length_halves [OF that] by (intro broadcast2_product) simp
  show ?thesis
    unfolding multiply2_def fuse
    apply (rule broadcast2_pointwise)
    apply (rule broadcast2_pointwise)
    apply (rule broadcast2_pointwise)
    apply (rule vec)
    using assms
    apply (auto simp: has_channels_def list_all_iff)
    done
qed

lemma halves_are_take_drop:
  "length v = nat (2 * n) \<Longrightarrow> slice_to n v = take (nat n) v \<and> slice_from n v = drop (nat n) v"
  by (auto simp: slice_to_def slice_from_def)

lemma map3_cong_channels:
  assumes "has_channels c out" and "\<And>v. length v = c \<Longrightarrow> f v = g v"
  shows "map (map (map f)) out = map (map (map g)) out"
  using assms by (auto simp: has_channels_def list_all_iff)

lemma has_channels_map3:
  assumes "has_channels c out" and "\<And>v. length v = c \<Longrightarrow> length (f v) = d"
  shows "has_channels d (map (map (map f)) out)"
  using assms by (auto simp: has_channels_def list_all_iff)

lemma init_fields:
  assumes "GatedConv_init n k s p kw = Inr self"
  shows "n_filters self = n" and "filters (base self) = 2 * n"
    and "kernel_size (base self) = k" and "strides (base self) = s"
    and "padding (base self) = p" and "kwargs (base self) = kw" and "kw ''filters'' = None"
  using assms by (auto simp: GatedConv_init_def split: if_splits)

lemma call_after_conv:
  assumes "super_call (base self) x = Inr out"
  shows "call super_call self x =
           multiply2 (map (map (map (slice_to (n_filters self)))) out)
             (map (map (map (map sigmoid))) (map (map (map (slice_from (n_filters self)))) out))"
  using assms by (simp add: call_def bind_err_def Activation_def Let_def)

lemma call_error:
  "super_call (base self) x = Inl e \<Longrightarrow> call super_call self x = Inl e"
  by (simp add: call_def bind_err_def)

lemma call_value:
  assumes "super_call (base self) x = Inr out"
    and "has_channels (nat (2 * n_filters self)) out"
  shows "call super_call self x =
           Inr (map (map (map (\<lambda>v. map2 (*) (slice_to (n_filters self) v)
                                      (map sigmoid (slice_from (n_filters self) v))))) out)"
  using call_after_conv [of super_call self x out] assms(1) multiply2_halves [OF assms(2)]
  by simp

lemma conv_channels:
  assumes "conv_yields_filters super_call" and "GatedConv_init n k s p kw = Inr self"
    and "super_call (base self) x = Inr out"
  shows "has_channels (nat (2 * n)) out"
proof -
  have "has_channels (nat (filters (base self))) out"
    using assms(1,3) unfolding conv_yields_filters_def by blast
  then show ?thesis
    using init_fields(2) [OF assms(2)] by simp
qed

lemma call_Inr_conv:
  assumes "call super_call self x = Inr y"
  obtains out where "super_call (base self) x = Inr out"
  using assms by (cases "super_call (base self) x") (simp_all add: call_def bind_err_def)

lemma compute_output_shape_rank4:
  assumes "super_shape (base self) s = Inr [b, h, w, f]"
  shows "compute_output_shape super_shape self s = Inr [b, h, w, Some (n_filters self)]"
  using assms by (simp add: compute_output_shape_def bind_err_def slice_to_def)

lemma gated_length:
  assumes "length v = nat (2 * n)"
  shows "length (map2 (*) (slice_to n v) (map sigmoid (slice_from n v))) = nat n"
  using length_halves [OF assms] by simp

lemma invoke_keeps_layer: "snd (invoke fw i self m) = self"
  by (cases m) simp_all

lemma lifetime_keeps_layer: "lifetime fw i self ms = self"
  by (induction ms) (simp_all add: invoke_keeps_layer)

lemma compute_output_shape_last:
  assumes "compute_output_shape super_shape self sh = Inr out"
  shows "last out = Some (n_filters self)"
  using assms
  by (cases "super_shape (base self) sh") (auto simp: compute_output_shape_def bind_err_def)

lemma get_config_Inr:
  assumes "get_config super_get_config self = Inr cfg"
  shows "cfg = (super_get_config (base self))
                 (''n_filters'' \<mapsto> VInt (n_filters self), ''filters'' := None)"
  using assms by (auto simp: get_config_def Let_def split: if_splits)

lemma get_config_n_filters:
  assumes "get_config super_get_config self = Inr cfg"
  shows "cfg ''n_filters'' = Some (VInt (n_filters self))" and "cfg ''filters'' = None"
  using get_config_Inr [OF assms] by simp_all

lemma get_config_exported:
  assumes "exports_settings super_get_config"
  shows "get_config super_get_config self =
           Inr ((super_get_config (base self))
                  (''n_filters'' \<mapsto> VInt (n_filters self), ''filters'' := None))"
  using assms by (simp add: get_config_def exports_settings_def Let_def)

lemma from_config_bound:
  assumes "cfg ''n_filters'' = Some (VInt n)" and "cfg ''padding'' = Some (VStr p)"
    and "cfg ''kernel_size'' = Some k" and "cfg ''strides'' = Some s"
    and "cfg ''filters'' = None"
  shows "from_config cfg =
           Inr \<lparr> base = \<lparr> filters = n * 2, kernel_size = k, strides = s, padding = p,
                           kwargs = cfg(''n_filters'' := None, ''kernel_size'' := None,
                                        ''strides'' := None, ''padding'' := None) \<rparr>,
                  n_filters = n \<rparr>"
  using assms
  by (simp add: from_config_def int_arg_def str_arg_def bind_err_def GatedConv_def
      GatedConv_init_def)

lemma from_config_leaked_filters:
  assumes "cfg ''n_filters'' = Some (VInt n)" and "cfg ''padding'' = Some (VStr p)"
    and "cfg ''filters'' = Some v"
  shows "from_config cfg = Inl TypeError"
  using assms
  by (simp add: from_config_def int_arg_def str_arg_def bind_err_def GatedConv_def
      GatedConv_init_def)

lemma block_layer:
  "GatedConv (Some n) None None (Some ''same'') Map.empty =
     Inr \<lparr> base = \<lparr> filters = n * 2, kernel_size = VTuple [VInt 3, VInt 3],
                     strides = VTuple [VInt 1, VInt 1], padding = ''same'',
                     kwargs = Map.empty \<rparr>,
            n_filters = n \<rparr>"
  by (simp add: GatedConv_def GatedConv_init_def)

lemma block_stages:
  "block apply_layer x n pool_size dropout_rate =
     apply_in_order apply_layer 0
       (described_stages
          \<lparr> base = \<lparr> filters = n * 2, kernel_size = VTuple [VInt 3, VInt 3],
                      strides = VTuple [VInt 1, VInt 1], padding = ''same'',
                      kwargs = Map.empty \<rparr>,
             n_filters = n \<rparr>
          pool_size dropout_rate) x"
  unfolding block_def block_layer described_stages_def
  by (simp add: bind_err_def numeral_2_eq_2 numeral_3_eq_3 eval_nat_numeral
      split: sum.splits)

lemma gated_stage_shape:
  assumes "same_padding_keeps_size (conv2d_shape fw)"
  shows "compute_output_shape (conv2d_shape fw)
           \<lparr> base = \<lparr> filters = n * 2, kernel_size = VTuple [VInt 3, VInt 3],
                       strides = VTuple [VInt 1, VInt 1], padding = ''same'',
                       kwargs = Map.empty \<rparr>,
              n_filters = n \<rparr>
           [b, h, w, ch] = Inr [b, h, w, Some n]"
proof -
  let ?c = "\<lparr> filters = n * 2, kernel_size = VTuple [VInt 3, VInt 3],
               strides = VTuple [VInt 1, VInt 1], padding = ''same'',
               kwargs = Map.empty \<rparr>"
  have "conv2d_shape fw ?c [b, h, w, ch] = Inr [b, h, w, Some (filters ?c)]"
    using assms unfolding same_padding_keeps_size_def by simp
  then show ?thesis
    by (simp add: compute_output_shape_def bind_err_def slice_to_def)
qed

lemma block_shape_before_pool:
  assumes "same_padding_keeps_size (conv2d_shape fw)"
    and "keeps_shape (batchnorm_shape fw)"
    and "keeps_shape (dropout_shape fw)"
  shows "block (apply_shape fw) [b, h, w, ch] n pool_size dropout_rate =
           maxpool_shape fw pool_size [b, h, w, Some n]"
proof -
  have bn: "batchnorm_shape fw a sh = Inr sh" for a sh
    using assms(2) by (simp add: keeps_shape_def)
  have dr: "dropout_shape fw a sh = Inr sh" for a sh
    using assms(3) by (simp add: keeps_shape_def)
  show ?thesis
    unfolding block_def block_layer
    by (simp add: bind_err_def gated_stage_shape [OF assms(1)] bn dr)
qed

subsection \<open>The instance satisfies the guarantees\<close>

lemma ref_conv_yields_filters: "conv_yields_filters (ref_conv2d_call i)"
  by (simp add: conv_yields_filters_def ref_conv2d_call_def has_channels_def list_all_iff)

lemma ref_same_padding: "same_padding_keeps_size (conv2d_shape ref_framework)"
  by (auto simp: same_padding_keeps_size_def ref_framework_def ref_conv2d_shape_def
      conv_output_length_def split: option.splits)

lemma ref_keeps_shape:
  "keeps_shape (batchnorm_shape ref_framework)" "keeps_shape (dropout_shape ref_framework)"
  by (simp_all add: keeps_shape_def ref_framework_def)


lemma ref_exports: "exports_settings (conv2d_config ref_framework)"
  by (simp add: exports_settings_def ref_framework_def ref_conv2d_config_def)

lemma example_layer_init:
  "GatedConv_init 1 (VTuple [VInt 3, VInt 3]) (VTuple [VInt 1, VInt 1]) ''same'' Map.empty
     = Inr example_layer"
  by (simp add: GatedConv_init_def example_layer_def)

lemma example_layer_conv:
  "ref_conv2d_call 0 (base example_layer) [[[[1, 2]]]] = Inr [[[[3, 3]]]]"
  by (simp add: ref_conv2d_call_def example_layer_def numeral_2_eq_2)

lemma example_layer_shape:
  "ref_conv2d_shape (base example_layer) [Some 1, Some 8, Some 8, Some 3]
     = Inr [Some 1, Some 8, Some 8, Some 2]"
  by (simp add: ref_conv2d_shape_def example_layer_def conv_output_length_def)

subsection \<open>The claims\<close>

text \<open>
  Claim C1. Whatever the input, when the doubled-width convolution of the layer returns a
  tensor, \<open>call\<close> splits it along the channel axis into the first \<open>n_filters\<close> channels
  and the remaining \<open>n_filters\<close> channels, leaves the first half as it is (the identity),
  applies the sigmoid to the second half, and returns the elementwise product of the two.
\<close>

theorem call_splits_and_gates:
  assumes "conv_yields_filters super_call"
    and "GatedConv_init n k s p kw = Inr self"
    and "super_call (base self) x = Inr out"
  shows "filters (base self) = 2 * n
       \<and> has_channels (nat (2 * n)) out
       \<and> map (map (map (slice_to n))) out = map (map (map (take (nat n)))) out
       \<and> map (map (map (slice_from n))) out = map (map (map (drop (nat n)))) out
       \<and> has_channels (nat n) (map (map (map (take (nat n)))) out)
       \<and> has_channels (nat n) (map (map (map (drop (nat n)))) out)
       \<and> call super_call self x =
           Inr (map (map (map (\<lambda>v. map2 (*) (map (\<lambda>a. a) (take (nat n) v))
                                        (map sigmoid (drop (nat n) v))))) out)"
proof -
  have n: "n_filters self = n" and f: "filters (base self) = 2 * n"
    using init_fields [OF assms(2)] by simp_all
  have ch: "has_channels (nat (2 * n)) out"
    by (rule conv_channels [OF assms])
  have first: "map (map (map (slice_to n))) out = map (map (map (take (nat n)))) out"
    by (rule map3_cong_channels [OF ch]) (simp add: halves_are_take_drop)
  have second: "map (map (map (slice_from n))) out = map (map (map (drop (nat n)))) out"
    by (rule map3_cong_channels [OF ch]) (simp add: halves_are_take_drop)
  have c1: "has_channels (nat n) (map (map (map (take (nat n)))) out)"
    by (rule has_channels_map3 [OF ch]) simp
  have c2: "has_channels (nat n) (map (map (map (drop (nat n)))) out)"
    by (rule has_channels_map3 [OF ch]) simp
  have "call super_call self x =
          Inr (map (map (map (\<lambda>v. map2 (*) (slice_to n v) (map sigmoid (slice_from n v))))) out)"
    using call_value [of super_call self x out] assms(3) ch n by simp
  also have "map (map (map (\<lambda>v. map2 (*) (slice_to n v) (map sigmoid (slice_from n v))))) out
      = map (map (map (\<lambda>v. map2 (*) (map (\<lambda>a. a) (take (nat n) v))
                                        (map sigmoid (drop (nat n) v))))) out"
    by (rule map3_cong_channels [OF ch]) (simp add: halves_are_take_drop)
  finally show ?thesis using f ch first second c1 c2 by simp
qed

theorem call_splits_and_gates_witness:
  "conv_yields_filters (ref_conv2d_call 0)
   \<and> GatedConv_init 1 (VTuple [VInt 3, VInt 3]) (VTuple [VInt 1, VInt 1]) ''same'' Map.empty
       = Inr \<lparr> base = \<lparr> filters = 2, kernel_size = VTuple [VInt 3, VInt 3],
                         strides = VTuple [VInt 1, VInt 1], padding = ''same'',
                         kwargs = Map.empty \<rparr>, n_filters = 1 \<rparr>
   \<and> call (ref_conv2d_call 0)
        \<lparr> base = \<lparr> filters = 2, kernel_size = VTuple [VInt 3, VInt 3],
                    strides = VTuple [VInt 1, VInt 1], padding = ''same'',
                    kwargs = Map.empty \<rparr>, n_filters = 1 \<rparr>
        [[[[1, 2]]]] = Inr [[[[3 * sigmoid 3]]]]"
proof -
  let ?g = "\<lparr> base = \<lparr> filters = 2, kernel_size = VTuple [VInt 3, VInt 3],
                         strides = VTuple [VInt 1, VInt 1], padding = ''same'',
                         kwargs = Map.empty \<rparr>, n_filters = 1 \<rparr>"
  have i: "GatedConv_init 1 (VTuple [VInt 3, VInt 3]) (VTuple [VInt 1, VInt 1]) ''same'' Map.empty
             = Inr ?g"
    by (simp add: GatedConv_init_def)
  have c: "ref_conv2d_call 0 (base ?g) [[[[1, 2]]]] = Inr [[[[3, 3]]]]"
    by (simp add: ref_conv2d_call_def numeral_2_eq_2)
  show ?thesis
    using call_splits_and_gates [OF ref_conv_yields_filters i c] ref_conv_yields_filters i
    by simp
qed

text \<open>
  Claim C2. For a requested channel count \<open>c\<close> (a count, so \<open>0 \<le> c\<close>) and any kernel
  size, strides and padding, every channel vector of the tensor that \<open>call\<close> returns has
  exactly \<open>c\<close> entries, and not \<open>2c\<close> (the two numbers differ unless \<open>c = 0\<close>). The
  shape that \<open>compute_output_shape\<close> reports is the shape of the underlying convolution
  with its channel dimension replaced by \<open>c\<close>.
\<close>

theorem output_has_requested_channels:
  assumes "conv_yields_filters super_call"
    and "GatedConv_init n k s p kw = Inr self"
    and "0 \<le> n"
  shows "(\<forall>y. call super_call self x = Inr y \<longrightarrow>
            list_all (list_all (list_all
              (\<lambda>v. int (length v) = n \<and> (n \<noteq> 0 \<longrightarrow> int (length v) \<noteq> 2 * n)))) y)
       \<and> (\<forall>b h w f. super_shape (base self) sh = Inr [b, h, w, f] \<longrightarrow>
            compute_output_shape super_shape self sh = Inr [b, h, w, Some n])"
proof (intro conjI allI impI)
  fix y
  assume y: "call super_call self x = Inr y"
  then obtain out where out: "super_call (base self) x = Inr out"
    by (rule call_Inr_conv)
  have n: "n_filters self = n"
    using init_fields(1) [OF assms(2)] .
  have ch: "has_channels (nat (2 * n)) out"
    by (rule conv_channels [OF assms(1,2) out])
  have "y = map (map (map (\<lambda>v. map2 (*) (slice_to n v) (map sigmoid (slice_from n v))))) out"
    using call_value [of super_call self x out] out ch n y by simp
  moreover have "has_channels (nat n)
      (map (map (map (\<lambda>v. map2 (*) (slice_to n v) (map sigmoid (slice_from n v))))) out)"
    by (rule has_channels_map3 [OF ch]) (rule gated_length)
  ultimately have "has_channels (nat n) y"
    by simp
  then show "list_all (list_all (list_all
              (\<lambda>v. int (length v) = n \<and> (n \<noteq> 0 \<longrightarrow> int (length v) \<noteq> 2 * n)))) y"
    using assms(3) by (auto simp: has_channels_def list_all_iff)
next
  fix b h w f
  assume "super_shape (base self) sh = Inr [b, h, w, f]"
  then show "compute_output_shape super_shape self sh = Inr [b, h, w, Some n]"
    using compute_output_shape_rank4 [of super_shape self sh b h w f]
      init_fields(1) [OF assms(2)] by simp
qed

theorem output_has_requested_channels_witness:
  "conv_yields_filters (ref_conv2d_call 0)
   \<and> GatedConv_init 1 (VTuple [VInt 3, VInt 3]) (VTuple [VInt 1, VInt 1]) ''same'' Map.empty
       = Inr example_layer
   \<and> (0 :: int) \<le> 1
   \<and> call (ref_conv2d_call 0) example_layer [[[[1, 2]]]] = Inr [[[[3 * sigmoid 3]]]]
   \<and> list_all (list_all (list_all (\<lambda>v. int (length v) = 1 \<and> int (length v) \<noteq> 2 * 1)))
       [[[[3 * sigmoid 3]]]]
   \<and> ref_conv2d_shape (base example_layer) [Some 1, Some 8, Some 8, Some 3]
       = Inr [Some 1, Some 8, Some 8, Some 2]
   \<and> compute_output_shape ref_conv2d_shape example_layer [Some 1, Some 8, Some 8, Some 3]
       = Inr [Some 1, Some 8, Some 8, Some 1]"
proof -
  have v: "call (ref_conv2d_call 0) example_layer [[[[1, 2]]]] = Inr [[[[3 * sigmoid 3]]]]"
    using call_value [of "ref_conv2d_call 0" example_layer "[[[[1, 2]]]]" "[[[[3, 3]]]]"]
      example_layer_conv
    by (simp add: example_layer_def has_channels_def slice_to_def slice_from_def)
  show ?thesis
    using output_has_requested_channels [OF ref_conv_yields_filters example_layer_init,
        where x = "[[[[1, 2]]]]" and super_shape = ref_conv2d_shape
          and sh = "[Some 1, Some 8, Some 8, Some 3]"]
      ref_conv_yields_filters example_layer_init v example_layer_shape
    by simp
qed

text \<open>
  Claim C3. A layer constructed with \<open>n_filters\<close> configures the underlying convolution
  with \<open>2 * n_filters\<close> filters and stores \<open>n_filters\<close> itself. After any sequence of
  method invocations both values are unchanged, the reported output shape ends in
  \<open>n_filters\<close> and the exported configuration carries \<open>n_filters\<close>.
\<close>

theorem doubled_filters_for_lifetime:
  assumes "GatedConv_init n k s p kw = Inr self"
  shows "filters (base (lifetime fw i self ms)) = 2 * n
       \<and> n_filters (lifetime fw i self ms) = n
       \<and> (\<forall>sh out. compute_output_shape (conv2d_shape fw) (lifetime fw i self ms) sh = Inr out
            \<longrightarrow> last out = Some n)
       \<and> (\<forall>cfg. get_config (conv2d_config fw) (lifetime fw i self ms) = Inr cfg
            \<longrightarrow> cfg ''n_filters'' = Some (VInt n))"
proof -
  have n: "n_filters self = n" and f: "filters (base self) = 2 * n"
    using init_fields [OF assms] by simp_all
  show ?thesis
    unfolding lifetime_keeps_layer
    using n f compute_output_shape_last [of "conv2d_shape fw" self]
      get_config_n_filters(1) [of "conv2d_config fw" self]
    by auto
qed

theorem doubled_filters_for_lifetime_witness:
  "GatedConv_init 1 (VTuple [VInt 3, VInt 3]) (VTuple [VInt 1, VInt 1]) ''same'' Map.empty
     = Inr example_layer
   \<and> filters (base (lifetime ref_framework 0 example_layer
        [Call [[[[1, 2]]]], GetConfig, ComputeOutputShape [Some 1, Some 8, Some 8, Some 3]]))
       = 2 * 1
   \<and> n_filters (lifetime ref_framework 0 example_layer
        [Call [[[[1, 2]]]], GetConfig, ComputeOutputShape [Some 1, Some 8, Some 8, Some 3]])
       = 1
   \<and> compute_output_shape (conv2d_shape ref_framework)
        (lifetime ref_framework 0 example_layer
          [Call [[[[1, 2]]]], GetConfig, ComputeOutputShape [Some 1, Some 8, Some 8, Some 3]])
        [Some 1, Some 8, Some 8, Some 3]
       = Inr [Some 1, Some 8, Some 8, Some 1]
   \<and> last [Some 1, Some 8, Some 8, Some (1 :: int)] = Some 1"
proof -
  let ?ms = "[Call [[[[1, 2]]]], GetConfig, ComputeOutputShape [Some 1, Some 8, Some 8, Some 3]]"
  have s: "compute_output_shape (conv2d_shape ref_framework)
        (lifetime ref_framework 0 example_layer ?ms) [Some 1, Some 8, Some 8, Some 3]
       = Inr [Some 1, Some 8, Some 8, Some 1]"
    using example_layer_shape
    by (simp add: compute_output_shape_def bind_err_def slice_to_def ref_framework_def
        example_layer_def)
  show ?thesis
    using doubled_filters_for_lifetime [OF example_layer_init,
        where fw = ref_framework and i = 0 and ms = ?ms]
      example_layer_init s
    by simp
qed

text \<open>
  Claim C4. The exported configuration holds the requested channel count under
  \<open>'n_filters'\<close> and has no \<open>'filters'\<close> entry; a layer constructed from it has the
  original channel count, kernel size, strides and padding (and again twice the channel
  count as filters of its convolution).
\<close>

theorem config_round_trip:
  assumes "exports_settings super_get_config"
    and "GatedConv_init n k s p kw = Inr self"
  shows "\<exists>cfg self'. get_config super_get_config self = Inr cfg
       \<and> cfg ''n_filters'' = Some (VInt n)
       \<and> cfg ''filters'' = None
       \<and> from_config cfg = Inr self'
       \<and> n_filters self' = n
       \<and> kernel_size (base self') = k
       \<and> strides (base self') = s
       \<and> padding (base self') = p
       \<and> filters (base self') = 2 * n"
proof -
  let ?cfg = "(super_get_config (base self))
                (''n_filters'' \<mapsto> VInt (n_filters self), ''filters'' := None)"
  have fields: "n_filters self = n" "kernel_size (base self) = k" "strides (base self) = s"
    "padding (base self) = p"
    using init_fields [OF assms(2)] by simp_all
  have exported: "get_config super_get_config self = Inr ?cfg"
    by (rule get_config_exported [OF assms(1)])
  have entries: "?cfg ''n_filters'' = Some (VInt n)" "?cfg ''padding'' = Some (VStr p)"
    "?cfg ''kernel_size'' = Some k" "?cfg ''strides'' = Some s" "?cfg ''filters'' = None"
    using assms(1) fields by (simp_all add: exports_settings_def)
  let ?self' = "\<lparr> base = \<lparr> filters = n * 2, kernel_size = k, strides = s, padding = p,
                           kwargs = ?cfg(''n_filters'' := None, ''kernel_size'' := None,
                                         ''strides'' := None, ''padding'' := None) \<rparr>,
                  n_filters = n \<rparr>"
  show ?thesis
  proof (intro exI conjI)
    show "get_config super_get_config self = Inr ?cfg"
      by (rule exported)
    show "?cfg ''n_filters'' = Some (VInt n)"
      by (rule entries(1))
    show "?cfg ''filters'' = None"
      by (rule entries(5))
    show "from_config ?cfg = Inr ?self'"
      by (rule from_config_bound [OF entries])
  qed simp_all
qed

theorem config_round_trip_witness:
  "exports_settings (conv2d_config ref_framework)
   \<and> GatedConv_init 1 (VTuple [VInt 3, VInt 3]) (VTuple [VInt 1, VInt 1]) ''same'' Map.empty
       = Inr example_layer
   \<and> (\<exists>cfg self'. get_config (conv2d_config ref_framework) example_layer = Inr cfg
       \<and> cfg ''n_filters'' = Some (VInt 1)
       \<and> cfg ''filters'' = None
       \<and> from_config cfg = Inr self'
       \<and> n_filters self' = 1
       \<and> kernel_size (base self') = VTuple [VInt 3, VInt 3]
       \<and> strides (base self') = VTuple [VInt 1, VInt 1]
       \<and> padding (base self') = ''same''
       \<and> filters (base self') = 2 * 1)"
  using config_round_trip [OF ref_exports example_layer_init] ref_exports example_layer_init
  by simp

text \<open>
  Claim C5. For every input, filter count, pooling window and dropout rate, the block
  applies exactly this sequence: gated convolution, normalisation over the last axis,
  dropout; the same three once more; then one max-pooling over the given window, whose
  result it returns.
\<close>

theorem block_is_described_sequence:
  "block apply_layer x n pool_size dropout_rate =
     apply_in_order apply_layer 0
       (described_stages
          \<lparr> base = \<lparr> filters = n * 2, kernel_size = VTuple [VInt 3, VInt 3],
                      strides = VTuple [VInt 1, VInt 1], padding = ''same'',
                      kwargs = Map.empty \<rparr>,
             n_filters = n \<rparr>
          pool_size dropout_rate) x"
  by (rule block_stages)

theorem block_is_described_sequence_witness:
  "apply_in_order (apply_shape ref_framework) 0
     (described_stages
        \<lparr> base = \<lparr> filters = 4 * 2, kernel_size = VTuple [VInt 3, VInt 3],
                    strides = VTuple [VInt 1, VInt 1], padding = ''same'',
                    kwargs = Map.empty \<rparr>,
           n_filters = 4 \<rparr>
        (VTuple [VInt 2, VInt 2]) (2 / 10))
     [Some 1, Some 8, Some 8, Some 3]
   = block (apply_shape ref_framework) [Some 1, Some 8, Some 8, Some 3] 4
       (VTuple [VInt 2, VInt 2]) (2 / 10)"
  using block_is_described_sequence
      [where apply_layer = "apply_shape ref_framework"
         and x = "[Some 1, Some 8, Some 8, Some 3]" and n = 4
         and pool_size = "VTuple [VInt 2, VInt 2]" and dropout_rate = "2 / 10"]
  by simp



text \<open>
  Claim C9. \<open>compute_output_shape\<close> keeps the first three dimensions of the underlying
  shape and puts \<open>n_filters\<close> in the fourth position; \<open>call\<close> slices the innermost
  (fourth) axis. Both depend on the layer only through the result of the underlying
  convolution and \<open>n_filters\<close>: no option of the layer, \<open>data_format\<close> included, changes
  the axis. The witness is a channels-first layer, whose reported shape has \<open>n_filters\<close>
  in the last position although its channels are in the second.
\<close>

theorem channel_axis_is_fixed:
  "(\<forall>out. super_shape (base self) sh = Inr out \<longrightarrow>
      compute_output_shape super_shape self sh = Inr (take 3 out @ [Some (n_filters self)])
      \<and> (length out = 4 \<longrightarrow>
           compute_output_shape super_shape self sh = Inr (out[3 := Some (n_filters self)])))
   \<and> (\<forall>out. super_call (base self) x = Inr out \<longrightarrow>
        call super_call self x =
          Multiply [map (map (map (slice_to (n_filters self)))) out,
                    map (map (map (map sigmoid)))
                      (map (map (map (slice_from (n_filters self)))) out)])
   \<and> (\<forall>(self' :: gatedconv) sh'. n_filters self' = n_filters self
          \<and> super_shape (base self') sh' = super_shape (base self) sh \<longrightarrow>
        compute_output_shape super_shape self' sh' = compute_output_shape super_shape self sh)
   \<and> (\<forall>(self' :: gatedconv) x'. n_filters self' = n_filters self
          \<and> super_call (base self') x' = super_call (base self) x \<longrightarrow>
        call super_call self' x' = call super_call self x)"
proof (intro conjI allI impI)
  fix out
  assume out: "super_shape (base self) sh = Inr out"
  then show eq: "compute_output_shape super_shape self sh
                   = Inr (take 3 out @ [Some (n_filters self)])"
    by (simp add: compute_output_shape_def bind_err_def slice_to_def)
  assume "length out = 4"
  then obtain b h w f where "out = [b, h, w, f]"
    by (auto simp: length_Suc_conv eval_nat_numeral)
  then show "compute_output_shape super_shape self sh = Inr (out[3 := Some (n_filters self)])"
    using eq by (simp add: eval_nat_numeral)
next
  fix out
  assume "super_call (base self) x = Inr out"
  then show "call super_call self x =
          Multiply [map (map (map (slice_to (n_filters self)))) out,
                    map (map (map (map sigmoid)))
                      (map (map (map (slice_from (n_filters self)))) out)]"
    by (simp add: call_def bind_err_def Activation_def Let_def)
next
  fix self' :: gatedconv and sh'
  assume "n_filters self' = n_filters self
          \<and> super_shape (base self') sh' = super_shape (base self) sh"
  then show "compute_output_shape super_shape self' sh' = compute_output_shape super_shape self sh"
    by (simp add: compute_output_shape_def)
next
  fix self' :: gatedconv and x'
  assume "n_filters self' = n_filters self
          \<and> super_call (base self') x' = super_call (base self) x"
  then show "call super_call self' x' = call super_call self x"
    by (simp add: call_def)
qed

theorem channel_axis_is_fixed_witness:
  "ref_conv2d_shape (base example_channels_first_layer) [Some 1, Some 3, Some 8, Some 8]
     = Inr [Some 1, Some 8, Some 6, Some 6]
   \<and> length [Some 1, Some 8, Some 6, Some (6 :: int)] = 4
   \<and> compute_output_shape ref_conv2d_shape example_channels_first_layer
        [Some 1, Some 3, Some 8, Some 8]
       = Inr [Some 1, Some 8, Some 6, Some 4]"
proof -
  have s: "ref_conv2d_shape (base example_channels_first_layer)
             [Some 1, Some 3, Some 8, Some 8] = Inr [Some 1, Some 8, Some 6, Some 6]"
    by (simp add: ref_conv2d_shape_def example_channels_first_layer_def conv_output_length_def)
  have n: "n_filters example_channels_first_layer = 4"
    by (simp add: example_channels_first_layer_def)
  show ?thesis
    using channel_axis_is_fixed [where super_shape = ref_conv2d_shape
        and self = example_channels_first_layer and sh = "[Some 1, Some 3, Some 8, Some 8]"
        and super_call = "ref_conv2d_call 0" and x = "[]"] s n
    by (simp add: eval_nat_numeral)
qed

text \<open>
  Claim C10. Both gated convolutions of the block are constructed with padding
  \<open>'same'\<close>, the default kernel \<open>(3, 3)\<close> and the default strides \<open>(1, 1)\<close>. Each
  gated-convolution stage therefore keeps the spatial size, and the shape the block
  returns is that of the pooling applied to a tensor of the input's spatial size. The
  defaults of \<open>block\<close> are \<open>n_filters=64, pool_size=(2, 2), dropout_rate=0.2\<close>; those of
  \<open>GatedConv\<close> are \<open>n_filters=64, kernel_size=(3, 3), strides=(1, 1), padding='valid'\<close>.
\<close>

theorem block_construction_and_defaults:
  assumes "same_padding_keeps_size (conv2d_shape fw)"
    and "keeps_shape (batchnorm_shape fw)"
    and "keeps_shape (dropout_shape fw)"
  shows "GatedConv (Some n) None None (Some ''same'') Map.empty =
           Inr \<lparr> base = \<lparr> filters = n * 2, kernel_size = VTuple [VInt 3, VInt 3],
                           strides = VTuple [VInt 1, VInt 1], padding = ''same'',
                           kwargs = Map.empty \<rparr>,
                  n_filters = n \<rparr>
       \<and> (\<forall>(apply_layer :: nat \<Rightarrow> layer \<Rightarrow> shape \<Rightarrow> error + shape) x pool_size dropout_rate.
            block apply_layer x n pool_size dropout_rate =
              apply_in_order apply_layer 0
                (described_stages
                   \<lparr> base = \<lparr> filters = n * 2, kernel_size = VTuple [VInt 3, VInt 3],
                               strides = VTuple [VInt 1, VInt 1], padding = ''same'',
                               kwargs = Map.empty \<rparr>,
                      n_filters = n \<rparr>
                   pool_size dropout_rate) x)
       \<and> (\<forall>i b h w ch.
            apply_shape fw i
              (GatedConvLayer
                 \<lparr> base = \<lparr> filters = n * 2, kernel_size = VTuple [VInt 3, VInt 3],
                             strides = VTuple [VInt 1, VInt 1], padding = ''same'',
                             kwargs = Map.empty \<rparr>,
                    n_filters = n \<rparr>)
              [b, h, w, ch] = Inr [b, h, w, Some n])
       \<and> (\<forall>b h w ch pool_size dropout_rate.
            block (apply_shape fw) [b, h, w, ch] n pool_size dropout_rate =
              maxpool_shape fw pool_size [b, h, w, Some n])
       \<and> (\<forall>apply_layer :: nat \<Rightarrow> layer \<Rightarrow> shape \<Rightarrow> error + shape. \<forall>x.
            block_call apply_layer x None None None =
              block apply_layer x 64 (VTuple [VInt 2, VInt 2]) (2 / 10))
       \<and> GatedConv None None None None Map.empty =
           Inr \<lparr> base = \<lparr> filters = 128, kernel_size = VTuple [VInt 3, VInt 3],
                           strides = VTuple [VInt 1, VInt 1], padding = ''valid'',
                           kwargs = Map.empty \<rparr>,
                  n_filters = 64 \<rparr>"
  using block_layer [of n] gated_stage_shape [OF assms(1), of n]
    block_stages [where n = n and 'a = shape]
    block_shape_before_pool [OF assms, of _ _ _ _ n]
  by (simp add: block_call_def GatedConv_def GatedConv_init_def)

theorem block_construction_and_defaults_witness:
  "same_padding_keeps_size (conv2d_shape ref_framework)
   \<and> keeps_shape (batchnorm_shape ref_framework)
   \<and> keeps_shape (dropout_shape ref_framework)
   \<and> apply_shape ref_framework 0
        (GatedConvLayer
           \<lparr> base = \<lparr> filters = 4 * 2, kernel_size = VTuple [VInt 3, VInt 3],
                       strides = VTuple [VInt 1, VInt 1], padding = ''same'',
                       kwargs = Map.empty \<rparr>,
              n_filters = 4 \<rparr>)
        [Some 1, Some 8, Some 8, Some 3] = Inr [Some 1, Some 8, Some 8, Some 4]
   \<and> block (apply_shape ref_framework) [Some 1, Some 8, Some 8, Some 3] 4 (VInt 4) (2 / 10)
       = maxpool_shape ref_framework (VInt 4) [Some 1, Some 8, Some 8, Some 4]
   \<and> maxpool_shape ref_framework (VInt 4) [Some 1, Some 8, Some 8, Some 4]
       = Inr [Some 1, Some 2, Some 2, Some 4]"
proof -
  have p: "maxpool_shape ref_framework (VInt 4) [Some 1, Some 8, Some 8, Some 4]
       = Inr [Some 1, Some 2, Some 2, Some 4]"
    by (simp add: ref_framework_def ref_maxpool_shape_def conv_output_length_def)
  note facts = block_construction_and_defaults [OF ref_same_padding ref_keeps_shape,
      where n = 4]
  from facts have stage: "apply_shape ref_framework 0
        (GatedConvLayer
           \<lparr> base = \<lparr> filters = 4 * 2, kernel_size = VTuple [VInt 3, VInt 3],
                       strides = VTuple [VInt 1, VInt 1], padding = ''same'',
                       kwargs = Map.empty \<rparr>,
              n_filters = 4 \<rparr>)
        [Some 1, Some 8, Some 8, Some 3] = Inr [Some 1, Some 8, Some 8, Some 4]"
    by blast
  from facts have whole:
    "block (apply_shape ref_framework) [Some 1, Some 8, Some 8, Some 3] 4 (VInt 4) (2 / 10)
       = maxpool_shape ref_framework (VInt 4) [Some 1, Some 8, Some 8, Some 4]"
    by blast
  show ?thesis
    using ref_same_padding ref_keeps_shape stage whole p by blast
qed

end
